theory Spec2Isabelle
  imports Main "HOL-Library.Word"
begin

section \<open>Strings\<close>

text \<open>
  A JavaScript string is a sequence of UTF-16 code units; \<open>length\<close> and \<open>slice\<close> count
  code units. \<open>ustr\<close> embeds an ASCII literal, one code unit per character.
\<close>

type_synonym jsstring = "16 word list"

definition ustr :: "string \<Rightarrow> jsstring" where
  "ustr s = map (\<lambda>c. of_char c) s"

definition newline :: "16 word" where
  "newline = 0x0A"

text \<open>The degree sign \<open>U+00B0\<close>.\<close>

definition degree :: "16 word" where
  "degree = 0xB0"

text \<open>The bullet prefix \<open>U+2022\<close> followed by a space.\<close>

definition bullet :: jsstring where
  "bullet = [0x2022, 0x20]"

text \<open>\<open>Array.prototype.join\<close> on an array of strings.\<close>

fun join :: "jsstring \<Rightarrow> jsstring list \<Rightarrow> jsstring" where
  "join sep [] = []"
| "join sep [x] = x"
| "join sep (x # y # ys) = x @ sep @ join sep (y # ys)"

text \<open>
  The template literal \<open>${index}\<close> for a positive integer counter: its decimal digits.
  The counter is bounded by the array length, far below the range where a JavaScript
  number stops printing as a plain integer.
\<close>

definition digit :: "nat \<Rightarrow> 16 word" where
  "digit d = 0x30 + of_nat d"

function decimal :: "nat \<Rightarrow> jsstring" where
  "decimal n = (if n < 10 then [digit n] else decimal (n div 10) @ [digit (n mod 10)])"
  by pat_completeness auto
termination
  by (relation "measure id") auto

declare decimal.simps [simp del]

section \<open>Tokens\<close>

text \<open>
  The token tree of the tokenizer (\<open>marked.Token\<close>), one constructor per \<open>type\<close> tag,
  carrying the fields the converter reads. \<open>Generic\<close> stands for a token of any other
  kind, with its \<open>text\<close> field when it has one. A \<open>null\<close> or \<open>undefined\<close> field is
  \<open>None\<close>.
\<close>

datatype token =
    Space
  | Code jsstring
  | Heading jsstring "token list"
  | Table "tablecell list" "tablecell list list"
  | Hr
  | Blockquote jsstring "token list"
  | List bool "listitem list"
  | Paragraph jsstring "token list"
  | HTML jsstring jsstring
  | Text jsstring jsstring "token list option"
  | Def
  | Escape jsstring
  | Link jsstring jsstring "token list"
  | Image jsstring "jsstring option" jsstring
  | Strong jsstring "token list"
  | Em jsstring "token list"
  | Codespan jsstring jsstring
  | Br
  | Del jsstring "token list"
  | Generic "jsstring option"
and tablecell = TableCell "token list"
and listitem = ListItem "bool option" "token list"

text \<open>
  The fields, in the order of the constructors' arguments:
  \<open>Code text\<close>, \<open>Heading text tokens\<close>, \<open>Table header rows\<close>, \<open>Blockquote text tokens\<close>,
  \<open>List ordered items\<close>, \<open>Paragraph text tokens\<close>, \<open>HTML raw text\<close>,
  \<open>Text raw text tokens\<close> (the nested tokens are optional), \<open>Escape text\<close>,
  \<open>Link href text tokens\<close>, \<open>Image href title text\<close>, \<open>Strong text tokens\<close>,
  \<open>Em text tokens\<close>, \<open>Codespan raw text\<close>, \<open>Del text tokens\<close>,
  \<open>TableCell tokens\<close>, \<open>ListItem checked tokens\<close>.
\<close>

section \<open>Blocks and their constructors\<close>

record style =
  bold :: bool
  italic :: bool
  strike :: bool
  code :: bool

datatype run =
    TextRun (run_text: jsstring) (run_style: "style option")
  | LinkRun (run_text: jsstring) (url: jsstring)

datatype cell =
    RawText jsstring
  | RichText "run list"

datatype block =
    Section (section_text: jsstring)
  | Header jsstring
  | ImageBlock (image_url: "jsstring option") (alt_text: jsstring) (image_title: "jsstring option")
  | Divider
  | TableBlock (table_rows: "cell list list")

definition MAX_TEXT_LENGTH :: nat where "MAX_TEXT_LENGTH = 3000"
definition MAX_TABLE_ROWS :: nat where "MAX_TABLE_ROWS = 100"
definition MAX_TABLE_COLUMNS :: nat where "MAX_TABLE_COLUMNS = 20"
definition MAX_HEADER_LENGTH :: nat where "MAX_HEADER_LENGTH = 150"
definition MAX_IMAGE_TITLE_LENGTH :: nat where "MAX_IMAGE_TITLE_LENGTH = 2000"
definition MAX_IMAGE_ALT_TEXT_LENGTH :: nat where "MAX_IMAGE_ALT_TEXT_LENGTH = 2000"

definition section_block :: "jsstring \<Rightarrow> block" where
  "section_block t = Section (take MAX_TEXT_LENGTH t)"

definition divider :: block where
  "divider = Divider"

definition header :: "jsstring \<Rightarrow> block" where
  "header t = Header (take MAX_HEADER_LENGTH t)"

text \<open>
  \<open>image(url, altText, title?)\<close>. The url is stored as given, also when the caller
  passes \<open>undefined\<close>; a missing, \<open>null\<close> or empty title gives no title.
\<close>

definition image :: "jsstring option \<Rightarrow> jsstring \<Rightarrow> jsstring option \<Rightarrow> block" where
  "image u altText ttl =
     ImageBlock u (take MAX_IMAGE_ALT_TEXT_LENGTH altText)
       (case ttl of
          None \<Rightarrow> None
        | Some t \<Rightarrow> if t \<noteq> [] then Some (take MAX_IMAGE_TITLE_LENGTH t) else None)"

definition table :: "cell list list \<Rightarrow> block" where
  "table rs = TableBlock (map (\<lambda>row. take MAX_TABLE_COLUMNS row) (take MAX_TABLE_ROWS rs))"

section \<open>Inline rendering\<close>

text \<open>
  \<open>parsePlainText\<close>. For a kind outside its switch the source returns \<open>undefined\<close>,
  which \<open>flatMap\<close> keeps as one element and \<open>join('')\<close> prints as the empty string; every
  caller joins the fragments, so such a token contributes no fragment here.
\<close>

fun parsePlainText :: "token \<Rightarrow> jsstring list" where
  "parsePlainText (Link h t ts) = concat (map parsePlainText ts)"
| "parsePlainText (Em t ts) = concat (map parsePlainText ts)"
| "parsePlainText (Strong t ts) = concat (map parsePlainText ts)"
| "parsePlainText (Del t ts) = concat (map parsePlainText ts)"
| "parsePlainText Br = []"
| "parsePlainText (Image h ttl t) = [case ttl of Some x \<Rightarrow> x | None \<Rightarrow> h]"
| "parsePlainText (Codespan r t) = [r]"
| "parsePlainText (Text r t sub) = [r]"
| "parsePlainText (HTML r t) = [r]"
| "parsePlainText _ = []"

definition isSectionBlock :: "block \<Rightarrow> bool" where
  "isSectionBlock b = (case b of Section _ \<Rightarrow> True | _ \<Rightarrow> False)"

fun parseMrkdwn :: "token \<Rightarrow> jsstring" where
  "parseMrkdwn (Link h t ts) =
     ustr ''<'' @ h @ ustr ''|'' @ concat (map parseMrkdwn ts) @ ustr ''> ''"
| "parseMrkdwn (Em t ts) = ustr ''_'' @ concat (map parseMrkdwn ts) @ ustr ''_''"
| "parseMrkdwn (Codespan r t) = ustr ''`'' @ t @ ustr ''`''"
| "parseMrkdwn (Strong t ts) = ustr ''*'' @ concat (map parseMrkdwn ts) @ ustr ''*''"
| "parseMrkdwn (Text r t sub) = t"
| "parseMrkdwn (Del t ts) = ustr ''~'' @ concat (map parseMrkdwn ts) @ ustr ''~''"
| "parseMrkdwn _ = []"

section \<open>Paragraphs, headings, code\<close>

text \<open>
  \<open>addMrkdwn\<close> mutates the accumulator: it appends to the text of the last block when
  that block is a section, and pushes a new section otherwise. Here the accumulator is
  passed in and returned.
\<close>

definition addMrkdwn :: "jsstring \<Rightarrow> block list \<Rightarrow> block list" where
  "addMrkdwn content accumulator =
     (if accumulator \<noteq> [] \<and> isSectionBlock (last accumulator)
      then butlast accumulator @ [Section (section_text (last accumulator) @ content)]
      else accumulator @ [section_block content])"

fun parsePhrasingContent :: "token \<Rightarrow> block list \<Rightarrow> block list" where
  "parsePhrasingContent (Image h ttl t) accumulator =
     accumulator @
       [image (Some h)
          (if t \<noteq> [] then t
           else case ttl of
                  Some x \<Rightarrow> if x \<noteq> [] then x else h
                | None \<Rightarrow> h)
          ttl]"
| "parsePhrasingContent element accumulator = addMrkdwn (parseMrkdwn element) accumulator"

text \<open>\<open>parseParagraph\<close>, \<open>parseHeading\<close> and \<open>parseCode\<close> take the fields they read:
  the paragraph's or heading's \<open>tokens\<close>, the code block's \<open>text\<close>.\<close>

definition parseParagraph :: "token list \<Rightarrow> block list" where
  "parseParagraph ts = foldl (\<lambda>accumulator child. parsePhrasingContent child accumulator) [] ts"

definition parseHeading :: "token list \<Rightarrow> block" where
  "parseHeading ts = header (concat (concat (map parsePlainText ts)))"

definition fence :: jsstring where
  "fence = ustr ''```''"

definition parseCode :: "jsstring \<Rightarrow> block" where
  "parseCode t = section_block (fence @ [newline] @ t @ [newline] @ fence)"

section \<open>Lists\<close>

record ListOptions =
  checkboxPrefix :: "(bool \<Rightarrow> jsstring) option"

record ParsingOptions =
  lists :: "ListOptions option"

text \<open>The \<open>text\<close> field of a token, for the kinds that have one.\<close>

fun tokenText :: "token \<Rightarrow> jsstring option" where
  "tokenText (Code t) = Some t"
| "tokenText (Heading t ts) = Some t"
| "tokenText (Blockquote t ts) = Some t"
| "tokenText (Paragraph t ts) = Some t"
| "tokenText (HTML r t) = Some t"
| "tokenText (Text r t sub) = Some t"
| "tokenText (Escape t) = Some t"
| "tokenText (Link h t ts) = Some t"
| "tokenText (Image h ttl t) = Some t"
| "tokenText (Strong t ts) = Some t"
| "tokenText (Em t ts) = Some t"
| "tokenText (Codespan r t) = Some t"
| "tokenText (Del t ts) = Some t"
| "tokenText (Generic g) = g"
| "tokenText _ = None"

fun isImage :: "token \<Rightarrow> bool" where
  "isImage (Image h ttl t) = True"
| "isImage _ = False"

text \<open>\<open>item.tokens[0]\<close>: \<open>undefined\<close> on an empty array.\<close>

fun firstChild :: "listitem \<Rightarrow> token option" where
  "firstChild (ListItem c []) = None"
| "firstChild (ListItem c (t # ts)) = Some t"

fun itemChecked :: "listitem \<Rightarrow> bool option" where
  "itemChecked (ListItem c ts) = c"

text \<open>
  The guard \<open>!paragraph || paragraph.type !== 'text' || !paragraph.tokens?.length\<close>
  fails exactly on a first child of kind text with a non-empty token array; those
  tokens are returned.
\<close>

fun inlineTokens :: "token option \<Rightarrow> token list option" where
  "inlineTokens (Some (Text r t (Some ts))) = (if ts \<noteq> [] then Some ts else None)"
| "inlineTokens _ = None"

text \<open>\<open>paragraph?.text || ''\<close>.\<close>

definition fallbackText :: "token option \<Rightarrow> jsstring" where
  "fallbackText paragraph =
     (case paragraph of
        None \<Rightarrow> []
      | Some p \<Rightarrow> (case tokenText p of None \<Rightarrow> [] | Some t \<Rightarrow> t))"

definition itemText :: "token list \<Rightarrow> jsstring" where
  "itemText ts = concat (map parseMrkdwn (filter (\<lambda>child. \<not> isImage child) ts))"

text \<open>
  The callback of \<open>element.items.map\<close> reads and increments the counter \<open>index\<close> of
  the enclosing call; the counter is threaded through the recursion.
\<close>

fun listContents :: "bool \<Rightarrow> ListOptions \<Rightarrow> nat \<Rightarrow> listitem list \<Rightarrow> jsstring list" where
  "listContents ord options index [] = []"
| "listContents ord options index (item # rest) =
     (case inlineTokens (firstChild item) of
        None \<Rightarrow> fallbackText (firstChild item) # listContents ord options index rest
      | Some ts \<Rightarrow>
          if ord then
            (decimal (index + 1) @ ustr ''. '' @ itemText ts)
              # listContents ord options (index + 1) rest
          else
            (case itemChecked item of
               Some c \<Rightarrow>
                 (case checkboxPrefix options of Some f \<Rightarrow> f c | None \<Rightarrow> bullet) @ itemText ts
             | None \<Rightarrow> bullet @ itemText ts)
              # listContents ord options index rest)"

text \<open>\<open>parseList(element, options = {})\<close>: a missing \<open>options\<close> has no prefix function.\<close>

definition parseList :: "bool \<Rightarrow> listitem list \<Rightarrow> ListOptions option \<Rightarrow> block" where
  "parseList ord its options =
     section_block (join [newline]
       (listContents ord
          (case options of Some opts \<Rightarrow> opts | None \<Rightarrow> \<lparr>checkboxPrefix = None\<rparr>) 0 its))"

section \<open>Tables\<close>

definition plainStyle :: style where
  "plainStyle = \<lparr>bold = False, italic = False, strike = False, code = False\<rparr>"

definition flatten :: "token list \<Rightarrow> jsstring" where
  "flatten ts = concat (concat (map parsePlainText ts))"

text \<open>The runs one child of a cell pushes onto \<open>elements\<close>.\<close>

fun cellRuns :: "token \<Rightarrow> run list" where
  "cellRuns (Text r t sub) = [TextRun t None]"
| "cellRuns (Strong t ts) = [TextRun (flatten ts) (Some (plainStyle\<lparr>bold := True\<rparr>))]"
| "cellRuns (Em t ts) = [TextRun (flatten ts) (Some (plainStyle\<lparr>italic := True\<rparr>))]"
| "cellRuns (Del t ts) = [TextRun (flatten ts) (Some (plainStyle\<lparr>strike := True\<rparr>))]"
| "cellRuns (Codespan r t) = [TextRun t (Some (plainStyle\<lparr>code := True\<rparr>))]"
| "cellRuns (Link h t ts) = [LinkRun (if flatten ts \<noteq> [] then flatten ts else h) h]"
| "cellRuns (Image h ttl t) =
     [TextRun (case ttl of Some x \<Rightarrow> if x \<noteq> [] then x else h | None \<Rightarrow> h) None]"
| "cellRuns _ = []"

fun parseTableCellToRichText :: "tablecell \<Rightarrow> cell" where
  "parseTableCellToRichText (TableCell ts) =
     (let elements = concat (map cellRuns ts) in
      case elements of
        [] \<Rightarrow> RawText []
      | [TextRun t None] \<Rightarrow> RawText t
      | _ \<Rightarrow> RichText elements)"

definition parseTable :: "tablecell list \<Rightarrow> tablecell list list \<Rightarrow> block" where
  "parseTable hdr rws =
     table (map (\<lambda>row. map parseTableCellToRichText row) (hdr # rws))"

section \<open>Block quotes, thematic breaks, raw HTML\<close>

fun isParagraph :: "token \<Rightarrow> bool" where
  "isParagraph (Paragraph t ts) = True"
| "isParagraph _ = False"

fun paragraphTokens :: "token \<Rightarrow> token list" where
  "paragraphTokens (Paragraph t ts) = ts"
| "paragraphTokens _ = []"

text \<open>\<open>text.replace(/\n/g, '\n> ')\<close>.\<close>

definition replaceNewlines :: "jsstring \<Rightarrow> jsstring" where
  "replaceNewlines t = concat (map (\<lambda>c. if c = newline then newline # ustr ''> '' else [c]) t)"

fun quoteBlock :: "block \<Rightarrow> block" where
  "quoteBlock (Section t) =
     (if newline \<in> set t then Section (ustr ''> '' @ replaceNewlines t) else Section t)"
| "quoteBlock b = b"

definition parseBlockquote :: "token list \<Rightarrow> block list" where
  "parseBlockquote ts =
     concat (map (\<lambda>p. map quoteBlock (parseParagraph (paragraphTokens p)))
                 (filter isParagraph ts))"

definition parseThematicBreak :: block where
  "parseThematicBreak = divider"

datatype error = TypeError | ParserError

text \<open>
  The XML parser is a library outside the repository. It is a parameter: from the raw
  HTML it gives the entries of \<open>res.img\<close> in order (none when \<open>res.img\<close> is falsy, one
  when it is not an array), each with its \<open>@_src\<close> and \<open>@_alt\<close> attributes when
  present, or the exception it throws.
\<close>

record img =
  src :: "jsstring option"
  alt :: "jsstring option"

type_synonym xmlparser = "jsstring \<Rightarrow> error + img list"

text \<open>
  \<open>image(url, img['@_alt'] || url)\<close>: with neither a non-empty \<open>alt\<close> nor a \<open>src\<close> the
  alt text is \<open>undefined\<close> and \<open>altText.slice\<close> throws a \<open>TypeError\<close>.
\<close>

definition imgBlock :: "img \<Rightarrow> error + block" where
  "imgBlock i =
     (case (case alt i of Some a \<Rightarrow> if a \<noteq> [] then Some a else src i | None \<Rightarrow> src i) of
        None \<Rightarrow> Inl TypeError
      | Some altText \<Rightarrow> Inr (image (src i) altText None))"

fun imgBlocks :: "img list \<Rightarrow> error + block list" where
  "imgBlocks [] = Inr []"
| "imgBlocks (i # is) =
     (case imgBlock i of
        Inl e \<Rightarrow> Inl e
      | Inr b \<Rightarrow> (case imgBlocks is of Inl e \<Rightarrow> Inl e | Inr bs \<Rightarrow> Inr (b # bs)))"

definition parseHTML :: "xmlparser \<Rightarrow> jsstring \<Rightarrow> error + block list" where
  "parseHTML xml r = (case xml r of Inl e \<Rightarrow> Inl e | Inr tags \<Rightarrow> imgBlocks tags)"

section \<open>Dispatch\<close>

fun parseToken :: "xmlparser \<Rightarrow> ParsingOptions \<Rightarrow> token \<Rightarrow> error + block list" where
  "parseToken xml options (Heading t ts) = Inr [parseHeading ts]"
| "parseToken xml options (Paragraph t ts) = Inr (parseParagraph ts)"
| "parseToken xml options (Code t) = Inr [parseCode t]"
| "parseToken xml options (Blockquote t ts) = Inr (parseBlockquote ts)"
| "parseToken xml options (List ord its) = Inr [parseList ord its (lists options)]"
| "parseToken xml options (Table hdr rws) = Inr [parseTable hdr rws]"
| "parseToken xml options Hr = Inr [parseThematicBreak]"
| "parseToken xml options (HTML r t) = parseHTML xml r"
| "parseToken xml options _ = Inr []"

text \<open>\<open>tokens.flatMap\<close>, left to right; the first exception ends the call.\<close>

fun parseBlocks :: "xmlparser \<Rightarrow> ParsingOptions \<Rightarrow> token list \<Rightarrow> error + block list" where
  "parseBlocks xml options [] = Inr []"
| "parseBlocks xml options (t # ts) =
     (case parseToken xml options t of
        Inl e \<Rightarrow> Inl e
      | Inr bs \<Rightarrow>
          (case parseBlocks xml options ts of
             Inl e \<Rightarrow> Inl e
           | Inr cs \<Rightarrow> Inr (bs @ cs)))"

text \<open>The kinds \<open>parseToken\<close> has a case for.\<close>

fun supported :: "token \<Rightarrow> bool" where
  "supported (Heading t ts) = True"
| "supported (Paragraph t ts) = True"
| "supported (Code t) = True"
| "supported (Blockquote t ts) = True"
| "supported (List ord its) = True"
| "supported (Table hdr rws) = True"
| "supported Hr = True"
| "supported (HTML r t) = True"
| "supported _ = False"

section \<open>The behaviour described for paragraphs and lists\<close>



text \<open>
  The items the list rule renders with an index, a prefix or a bullet: those whose first
  child is a text token carrying at least one nested inline token.
\<close>

fun wellFormedItem :: "listitem \<Rightarrow> bool" where
  "wellFormedItem (ListItem c (Text r t (Some (x # xs)) # others)) = True"
| "wellFormedItem _ = False"

section \<open>Concrete conversions\<close>

text \<open>
  C3. The paragraph \<open>**a ~b~** c[*d*](https://example.com)\<close> is tokenized as a strong
  token (holding the text \<open>a \<close> and a strikethrough of \<open>b\<close>), the text \<open> c\<close> and a link
  holding an emphasis of \<open>d\<close>. The converter returns exactly one Section with the text
  \<open>*a ~b~* c<https://example.com|_d_> \<close>, whatever the options and the fields it does not
  read. The rules behind it: emphasis, strong and strikethrough wrap the concatenated
  renderings of their children in \<open>_\<close>, \<open>*\<close> and \<open>~\<close>; a link gives \<open><url|children>\<close>
  followed by a space.
\<close>

theorem C3_basic_markdown:
  "parseBlocks xml opts
     [Paragraph p
        [Strong s1 [Text r1 (ustr ''a '') None, Del s2 [Text r2 (ustr ''b'') None]],
         Text r3 (ustr '' c'') None,
         Link (ustr ''https://example.com'') s3 [Em s4 [Text r4 (ustr ''d'') None]]]]
     = Inr [Section (ustr ''*a ~b~* c<https://example.com|_d_> '')]
   \<and> parseMrkdwn (Em t ts) = ustr ''_'' @ concat (map parseMrkdwn ts) @ ustr ''_''
   \<and> parseMrkdwn (Strong t ts) = ustr ''*'' @ concat (map parseMrkdwn ts) @ ustr ''*''
   \<and> parseMrkdwn (Del t ts) = ustr ''~'' @ concat (map parseMrkdwn ts) @ ustr ''~''
   \<and> parseMrkdwn (Link h t ts)
       = ustr ''<'' @ h @ ustr ''|'' @ concat (map parseMrkdwn ts) @ ustr ''> ''"
  by (simp add: parseParagraph_def addMrkdwn_def isSectionBlock_def section_block_def
      MAX_TEXT_LENGTH_def ustr_def)

text \<open>
  C2. The paragraph \<open>(-26\<degree>C)**Conditions:** Light\<close> is tokenized as the text
  \<open>(-26\<degree>C)\<close>, a strong token holding \<open>Conditions:\<close>, and the text \<open> Light\<close>. The
  converter concatenates the three renderings as they are: the Section's text is
  \<open>(-26\<degree>C)*Conditions:* Light\<close>, with no space between the closing parenthesis and
  the bold run, which is not the text \<open>(-26\<degree>C) *Conditions:* Light\<close>.
\<close>

theorem C2_no_spacing_repair:
  "parseBlocks xml opts
     [Paragraph p
        [Text r1 (ustr ''(-26'' @ [degree] @ ustr ''C)'') None,
         Strong s [Text r2 (ustr ''Conditions:'') None],
         Text r3 (ustr '' Light'') None]]
     = Inr [Section (ustr ''(-26'' @ [degree] @ ustr ''C)*Conditions:* Light'')]
   \<and> Section (ustr ''(-26'' @ [degree] @ ustr ''C)*Conditions:* Light'')
       \<noteq> Section (ustr ''(-26'' @ [degree] @ ustr ''C) *Conditions:* Light'')"
  by (simp add: parseParagraph_def addMrkdwn_def isSectionBlock_def section_block_def
      MAX_TEXT_LENGTH_def ustr_def)

section \<open>Size caps\<close>

text \<open>
  C1. A paragraph made of a text of 3000 characters followed by a bold \<open>b\<close>: the first
  child opens a Section through the capped constructor, the second is appended to that
  Section's text with no cap. The emitted Section carries 3003 characters.
\<close>

theorem C1_section_cap_exceeded:
  "parseBlocks xml opts
     [Paragraph p [Text r1 (replicate 3000 a) None, Strong s [Text r2 (ustr ''b'') None]]]
     = Inr [Section (replicate 3000 a @ ustr ''*b*'')]
   \<and> length (replicate 3000 a @ ustr ''*b*'') = 3003"
  by (simp add: parseParagraph_def addMrkdwn_def isSectionBlock_def section_block_def
      MAX_TEXT_LENGTH_def ustr_def)

lemma constructor_caps:
  "section_block t = Section (take 3000 t)"
  "length (section_text (section_block t)) \<le> 3000"
  "header t = Header (take 150 t)"
  "length (alt_text (image u a ttl)) \<le> 2000"
  "image_title (image u a ttl) = Some x \<Longrightarrow> length x \<le> 2000"
  "length (table_rows (table rs)) \<le> 100"
  "row \<in> set (table_rows (table rs)) \<Longrightarrow> length row \<le> 20"
  by (auto simp: section_block_def header_def image_def table_def MAX_TEXT_LENGTH_def
      MAX_HEADER_LENGTH_def MAX_IMAGE_ALT_TEXT_LENGTH_def MAX_IMAGE_TITLE_LENGTH_def
      MAX_TABLE_ROWS_def MAX_TABLE_COLUMNS_def split: option.splits if_splits)

section \<open>Properties of paragraphs\<close>












section \<open>Properties of lists\<close>

lemma itemText_images: "itemText ts = concat (map parseMrkdwn ts)"
proof (induction ts)
  case Nil
  then show ?case by (simp add: itemText_def)
next
  case (Cons a ts)
  then show ?case by (cases a) (simp_all add: itemText_def)
qed

lemma wellFormedItem_iff: "wellFormedItem item = (inlineTokens (firstChild item) \<noteq> None)"
  by (induction item rule: wellFormedItem.induct) simp_all

lemma length_listContents: "length (listContents ord options index its) = length its"
  by (induction its arbitrary: index) (auto split: option.splits)

lemma listContents_wellFormed:
  "listContents ord options index (ListItem c (Text r t (Some (x # xs)) # others) # rest)
   = (if ord then decimal (index + 1) @ ustr ''. '' @ concat (map parseMrkdwn (x # xs))
      else case c of
             Some b \<Rightarrow> (case checkboxPrefix options of Some f \<Rightarrow> f b | None \<Rightarrow> bullet)
                        @ concat (map parseMrkdwn (x # xs))
           | None \<Rightarrow> bullet @ concat (map parseMrkdwn (x # xs)))
     # listContents ord options (if ord then index + 1 else index) rest"
  by (simp add: itemText_images split: option.splits)

lemma listContents_step:
  "listContents ord options index (item # rest) ! Suc k
   = listContents ord options (if ord \<and> wellFormedItem item then index + 1 else index) rest ! k"
  by (simp add: wellFormedItem_iff split: option.splits)

lemma listContents_nth:
  "k < length its \<Longrightarrow> its ! k = ListItem c (Text r t (Some (x # xs)) # others) \<Longrightarrow>
   listContents ord options index its ! k
   = (if ord then decimal (Suc (index + length (filter wellFormedItem (take k its))))
                  @ ustr ''. '' @ concat (map parseMrkdwn (x # xs))
      else case c of
             Some b \<Rightarrow> (case checkboxPrefix options of Some f \<Rightarrow> f b | None \<Rightarrow> bullet)
                        @ concat (map parseMrkdwn (x # xs))
           | None \<Rightarrow> bullet @ concat (map parseMrkdwn (x # xs)))"
proof (induction its arbitrary: index k)
  case Nil
  then show ?case by simp
next
  case (Cons item its)
  show ?case
  proof (cases k)
    case 0
    with Cons.prems show ?thesis
      by (simp only: nth_Cons_0 listContents_wellFormed take_0 filter.simps list.size) simp
  next
    case (Suc j)
    with Cons.prems have j: "j < length its" "its ! j = ListItem c (Text r t (Some (x # xs)) # others)"
      by simp_all
    show ?thesis
      unfolding Suc listContents_step
      by (simp only: Cons.IH [OF j]) simp
  qed
qed



text \<open>
  C6, as amended. A list token gives exactly one Section, built by the capped constructor
  from the item lines joined by newlines, one line per item. For an item whose first child
  is a text token with at least one nested inline token, whatever the other items are: in
  an ordered list the line is the index, a dot, a space and the rendered text, the index
  being one more than the number of such items before it, whether or not the item has a
  checked state; in an unordered list it is the checkbox prefix applied to the checked
  state (the bullet when no prefix function is given) and the rendered text for an item
  with a checked state, and the bullet and the rendered text for any other item. The
  rendered text is the concatenation of the renderings of the nested tokens, in which an
  image renders to nothing.
\<close>

theorem C6_list:
  "parseToken xml \<lparr>lists = None\<rparr> (List ord its)
     = Inr [section_block (join [newline] (listContents ord \<lparr>checkboxPrefix = None\<rparr> 0 its))]
   \<and> parseToken xml \<lparr>lists = Some options\<rparr> (List ord its)
     = Inr [section_block (join [newline] (listContents ord options 0 its))]
   \<and> length (listContents ord options index its) = length its
   \<and> listContents True options index (ListItem c (Text r t (Some (x # xs)) # others) # rest)
     = (decimal (index + 1) @ ustr ''. '' @ concat (map parseMrkdwn (x # xs)))
       # listContents True options (index + 1) rest
   \<and> listContents False options index (ListItem (Some b) (Text r t (Some (x # xs)) # others) # rest)
     = ((case checkboxPrefix options of Some f \<Rightarrow> f b | None \<Rightarrow> bullet)
         @ concat (map parseMrkdwn (x # xs)))
       # listContents False options index rest
   \<and> listContents False options index (ListItem None (Text r t (Some (x # xs)) # others) # rest)
     = (bullet @ concat (map parseMrkdwn (x # xs))) # listContents False options index rest
   \<and> (k < length its \<and> its ! k = ListItem c' (Text r' t' (Some (y # ys)) # others') \<longrightarrow>
       listContents ord options 0 its ! k
       = (if ord then decimal (Suc (length (filter wellFormedItem (take k its))))
                      @ ustr ''. '' @ concat (map parseMrkdwn (y # ys))
          else case c' of
                 Some b' \<Rightarrow> (case checkboxPrefix options of Some f \<Rightarrow> f b' | None \<Rightarrow> bullet)
                            @ concat (map parseMrkdwn (y # ys))
               | None \<Rightarrow> bullet @ concat (map parseMrkdwn (y # ys))))
   \<and> parseMrkdwn (Image h ttl ti) = []"
proof -
  have a: "parseToken xml \<lparr>lists = None\<rparr> (List ord its)
     = Inr [section_block (join [newline] (listContents ord \<lparr>checkboxPrefix = None\<rparr> 0 its))]"
    by (simp add: parseList_def)
  have b: "parseToken xml \<lparr>lists = Some options\<rparr> (List ord its)
     = Inr [section_block (join [newline] (listContents ord options 0 its))]"
    by (simp add: parseList_def)
  have n: "k < length its \<and> its ! k = ListItem c' (Text r' t' (Some (y # ys)) # others') \<longrightarrow>
       listContents ord options 0 its ! k
       = (if ord then decimal (Suc (length (filter wellFormedItem (take k its))))
                      @ ustr ''. '' @ concat (map parseMrkdwn (y # ys))
          else case c' of
                 Some b' \<Rightarrow> (case checkboxPrefix options of Some f \<Rightarrow> f b' | None \<Rightarrow> bullet)
                            @ concat (map parseMrkdwn (y # ys))
               | None \<Rightarrow> bullet @ concat (map parseMrkdwn (y # ys)))"
    using listContents_nth [of k its c' r' t' y ys others' ord options 0] by simp
  have i: "parseMrkdwn (Image h ttl ti) = []"
    by simp
  from a b n i length_listContents [of ord options index its]
    listContents_wellFormed [of True options index c r t x xs others rest]
    listContents_wellFormed [of False options index "Some b" r t x xs others rest]
    listContents_wellFormed [of False options index None r t x xs others rest]
  show ?thesis by simp
qed

text \<open>
  The list \<open>- # h\<close>, \<open>- [x] b ![i](u)\<close> with a nested list under the second item,
  unordered with a prefix function and ordered without one.
\<close>

theorem C6_list_witness:
  "(1::nat) < length
       [ListItem None [Heading (ustr ''h'') [Text (ustr ''h'') (ustr ''h'') None]],
        ListItem (Some True)
          [Text (ustr ''b ![i](u)'') (ustr ''b ![i](u)'')
             (Some [Text (ustr ''b '') (ustr ''b '') None, Image (ustr ''u'') None (ustr ''i'')]),
           List False [ListItem None [Text (ustr ''c'') (ustr ''c'')
             (Some [Text (ustr ''c'') (ustr ''c'') None])]]]]
   \<and> [ListItem None [Heading (ustr ''h'') [Text (ustr ''h'') (ustr ''h'') None]],
        ListItem (Some True)
          [Text (ustr ''b ![i](u)'') (ustr ''b ![i](u)'')
             (Some [Text (ustr ''b '') (ustr ''b '') None, Image (ustr ''u'') None (ustr ''i'')]),
           List False [ListItem None [Text (ustr ''c'') (ustr ''c'')
             (Some [Text (ustr ''c'') (ustr ''c'') None])]]]] ! 1
      = ListItem (Some True)
          (Text (ustr ''b ![i](u)'') (ustr ''b ![i](u)'')
             (Some (Text (ustr ''b '') (ustr ''b '') None # [Image (ustr ''u'') None (ustr ''i'')]))
           # [List False [ListItem None [Text (ustr ''c'') (ustr ''c'')
             (Some [Text (ustr ''c'') (ustr ''c'') None])]]])
   \<and> listContents False \<lparr>checkboxPrefix = Some (\<lambda>c. if c then ustr ''[x] '' else ustr ''[ ] '')\<rparr> 0
       [ListItem None [Heading (ustr ''h'') [Text (ustr ''h'') (ustr ''h'') None]],
        ListItem (Some True)
          [Text (ustr ''b ![i](u)'') (ustr ''b ![i](u)'')
             (Some [Text (ustr ''b '') (ustr ''b '') None, Image (ustr ''u'') None (ustr ''i'')]),
           List False [ListItem None [Text (ustr ''c'') (ustr ''c'')
             (Some [Text (ustr ''c'') (ustr ''c'') None])]]]] ! 1
      = ustr ''[x] b ''
   \<and> parseToken (\<lambda>r. Inr [])
       \<lparr>lists = Some \<lparr>checkboxPrefix = Some (\<lambda>c. if c then ustr ''[x] '' else ustr ''[ ] '')\<rparr>\<rparr>
       (List False
         [ListItem None [Heading (ustr ''h'') [Text (ustr ''h'') (ustr ''h'') None]],
          ListItem (Some True)
            [Text (ustr ''b ![i](u)'') (ustr ''b ![i](u)'')
               (Some [Text (ustr ''b '') (ustr ''b '') None, Image (ustr ''u'') None (ustr ''i'')]),
             List False [ListItem None [Text (ustr ''c'') (ustr ''c'')
               (Some [Text (ustr ''c'') (ustr ''c'') None])]]]])
      = Inr [Section (ustr ''h'' @ [newline] @ ustr ''[x] b '')]
   \<and> parseToken (\<lambda>r. Inr []) \<lparr>lists = None\<rparr>
       (List True
         [ListItem None [Heading (ustr ''h'') [Text (ustr ''h'') (ustr ''h'') None]],
          ListItem (Some True)
            [Text (ustr ''b ![i](u)'') (ustr ''b ![i](u)'')
               (Some [Text (ustr ''b '') (ustr ''b '') None, Image (ustr ''u'') None (ustr ''i'')]),
             List False [ListItem None [Text (ustr ''c'') (ustr ''c'')
               (Some [Text (ustr ''c'') (ustr ''c'') None])]]]])
      = Inr [Section (ustr ''h'' @ [newline] @ ustr ''1. b '')]"
  using C6_list [where k = 1 and ord = False
      and options = "\<lparr>checkboxPrefix = Some (\<lambda>c. if c then ustr ''[x] '' else ustr ''[ ] '')\<rparr>"
      and its = "[ListItem None [Heading (ustr ''h'') [Text (ustr ''h'') (ustr ''h'') None]],
        ListItem (Some True)
          [Text (ustr ''b ![i](u)'') (ustr ''b ![i](u)'')
             (Some [Text (ustr ''b '') (ustr ''b '') None, Image (ustr ''u'') None (ustr ''i'')]),
           List False [ListItem None [Text (ustr ''c'') (ustr ''c'')
             (Some [Text (ustr ''c'') (ustr ''c'') None])]]]]"
      and c' = "Some True" and r' = "ustr ''b ![i](u)''" and t' = "ustr ''b ![i](u)''"
      and y = "Text (ustr ''b '') (ustr ''b '') None"
      and ys = "[Image (ustr ''u'') None (ustr ''i'')]"
      and others' = "[List False [ListItem None [Text (ustr ''c'') (ustr ''c'')
             (Some [Text (ustr ''c'') (ustr ''c'') None])]]]"]
  by (simp add: parseList_def fallbackText_def itemText_def decimal.simps digit_def ustr_def
      section_block_def MAX_TEXT_LENGTH_def newline_def)

text \<open>
  The claim as stated fails on the list \<open>- # h\<close>, whose item holds a heading as first
  child: the line of the item is the heading's text with no bullet.
\<close>

theorem C6_list_counterexample:
  "parseToken (\<lambda>r. Inr []) \<lparr>lists = None\<rparr>
     (List False [ListItem None [Heading (ustr ''h'') [Text (ustr ''h'') (ustr ''h'') None]]])
   = Inr [Section (ustr ''h'')]
   \<and> parseToken (\<lambda>r. Inr []) \<lparr>lists = None\<rparr>
     (List False [ListItem None [Heading (ustr ''h'') [Text (ustr ''h'') (ustr ''h'') None]]])
   \<noteq> Inr [Section (bullet @ ustr ''h'')]"
  by (simp add: parseList_def fallbackText_def section_block_def MAX_TEXT_LENGTH_def ustr_def bullet_def)

section \<open>Properties of tables\<close>

text \<open>
  C5. A table token gives exactly one Table block. Its rows are the header row followed
  by the body rows, in order, cut to the first 100 rows; each row is cut to its first
  20 cells, and each kept cell is converted by the cell renderer on its own. Rows and
  cells past the caps are dropped from the end only.
\<close>

theorem C5_table: "parseToken xml opts (Table hdr rws) =
   Inr [TableBlock (map (\<lambda>row. map parseTableCellToRichText (take 20 row)) (take 100 (hdr # rws)))]"
proof -
  have m: "map (take 20) (take 100 (map (map g) xs))
           = map (\<lambda>row. map g (take 20 row)) (take 100 xs)" for g :: "tablecell \<Rightarrow> cell" and xs
    by (simp add: take_map)
  show ?thesis
    unfolding parseToken.simps parseTable_def table_def MAX_TABLE_ROWS_def MAX_TABLE_COLUMNS_def
    by (simp only: m)
qed

text \<open>
  C8. The cell renderer, kind by kind: a text child gives a plain run; a strong, emphasis
  or strikethrough child gives one run with the flattened plain text of its children and
  the single flag bold, italic or strike; a code span gives a run with the code flag; a
  link gives a hyperlink run whose text is the flattened text, or the url when that is
  empty; an image gives a plain run with its title, or its url when the title is missing
  or empty; a line break and raw HTML give nothing. Then: no run gives RawText with the
  empty string, exactly one plain text run gives RawText with its text, anything else
  gives RichText with all the runs.
\<close>

theorem C8_table_cell:
  "cellRuns (Text r t sub) = [TextRun t None]
   \<and> cellRuns (Strong t ts) = [TextRun (concat (concat (map parsePlainText ts)))
        (Some \<lparr>bold = True, italic = False, strike = False, code = False\<rparr>)]
   \<and> cellRuns (Em t ts) = [TextRun (concat (concat (map parsePlainText ts)))
        (Some \<lparr>bold = False, italic = True, strike = False, code = False\<rparr>)]
   \<and> cellRuns (Del t ts) = [TextRun (concat (concat (map parsePlainText ts)))
        (Some \<lparr>bold = False, italic = False, strike = True, code = False\<rparr>)]
   \<and> cellRuns (Codespan r t) = [TextRun t
        (Some \<lparr>bold = False, italic = False, strike = False, code = True\<rparr>)]
   \<and> cellRuns (Link h t ts) =
        [LinkRun (if concat (concat (map parsePlainText ts)) = [] then h
                  else concat (concat (map parsePlainText ts))) h]
   \<and> cellRuns (Image h ttl t) =
        [TextRun (case ttl of None \<Rightarrow> h | Some x \<Rightarrow> if x = [] then h else x) None]
   \<and> cellRuns Br = []
   \<and> cellRuns (HTML r t) = []
   \<and> parsePlainText (Text r t sub) = [r]
   \<and> parsePlainText (Codespan r t) = [r]
   \<and> parsePlainText (HTML r t) = [r]
   \<and> parsePlainText Br = []
   \<and> parsePlainText (Image h None t) = [h]
   \<and> parsePlainText (Image h (Some x') t) = [x']
   \<and> parsePlainText (Strong t ts) = concat (map parsePlainText ts)
   \<and> parsePlainText (Em t ts) = concat (map parsePlainText ts)
   \<and> parsePlainText (Del t ts) = concat (map parsePlainText ts)
   \<and> parsePlainText (Link h t ts) = concat (map parsePlainText ts)
   \<and> (concat (map cellRuns csa) = [] \<longrightarrow> parseTableCellToRichText (TableCell csa) = RawText [])
   \<and> (concat (map cellRuns csb) = [TextRun x None]
        \<longrightarrow> parseTableCellToRichText (TableCell csb) = RawText x)
   \<and> (concat (map cellRuns csc) \<noteq> [] \<and> (\<forall>y. concat (map cellRuns csc) \<noteq> [TextRun y None])
        \<longrightarrow> parseTableCellToRichText (TableCell csc) = RichText (concat (map cellRuns csc)))"
proof -
  define K :: "run list \<Rightarrow> cell" where
    "K = (\<lambda>runs. case runs of [] \<Rightarrow> RawText [] | [TextRun t None] \<Rightarrow> RawText t
                  | _ \<Rightarrow> RichText runs)"
  have k: "parseTableCellToRichText (TableCell cs) = K (concat (map cellRuns cs))" for cs
    by (simp add: K_def Let_def)
  have k0: "K [] = RawText []"
    by (simp add: K_def)
  have k1: "K [TextRun x None] = RawText x"
    by (simp add: K_def)
  have k2: "runs \<noteq> [] \<Longrightarrow> \<forall>y. runs \<noteq> [TextRun y None] \<Longrightarrow> K runs = RichText runs" for runs
    by (auto simp: K_def split: list.splits run.splits option.splits)
  have per_kind: "cellRuns (Text r t sub) = [TextRun t None]
   \<and> cellRuns (Strong t ts) = [TextRun (concat (concat (map parsePlainText ts)))
        (Some \<lparr>bold = True, italic = False, strike = False, code = False\<rparr>)]
   \<and> cellRuns (Em t ts) = [TextRun (concat (concat (map parsePlainText ts)))
        (Some \<lparr>bold = False, italic = True, strike = False, code = False\<rparr>)]
   \<and> cellRuns (Del t ts) = [TextRun (concat (concat (map parsePlainText ts)))
        (Some \<lparr>bold = False, italic = False, strike = True, code = False\<rparr>)]
   \<and> cellRuns (Codespan r t) = [TextRun t
        (Some \<lparr>bold = False, italic = False, strike = False, code = True\<rparr>)]
   \<and> cellRuns (Link h t ts) =
        [LinkRun (if concat (concat (map parsePlainText ts)) = [] then h
                  else concat (concat (map parsePlainText ts))) h]
   \<and> cellRuns (Image h ttl t) =
        [TextRun (case ttl of None \<Rightarrow> h | Some x \<Rightarrow> if x = [] then h else x) None]
   \<and> cellRuns Br = []
   \<and> cellRuns (HTML r t) = []"
    by (simp add: flatten_def plainStyle_def split: option.splits del: concat_eq_Nil_conv)
  have a: "concat (map cellRuns csa) = [] \<longrightarrow> parseTableCellToRichText (TableCell csa) = RawText []"
    unfolding k using k0 by (simp del: concat_eq_Nil_conv)
  have b: "concat (map cellRuns csb) = [TextRun x None]
        \<longrightarrow> parseTableCellToRichText (TableCell csb) = RawText x"
    unfolding k using k1 by simp
  have c: "concat (map cellRuns csc) \<noteq> [] \<and> (\<forall>y. concat (map cellRuns csc) \<noteq> [TextRun y None])
        \<longrightarrow> parseTableCellToRichText (TableCell csc) = RichText (concat (map cellRuns csc))"
    unfolding k using k2 by blast
  have flat: "parsePlainText (Text r t sub) = [r]
   \<and> parsePlainText (Codespan r t) = [r]
   \<and> parsePlainText (HTML r t) = [r]
   \<and> parsePlainText Br = []
   \<and> parsePlainText (Image h None t) = [h]
   \<and> parsePlainText (Image h (Some x') t) = [x']
   \<and> parsePlainText (Strong t ts) = concat (map parsePlainText ts)
   \<and> parsePlainText (Em t ts) = concat (map parsePlainText ts)
   \<and> parsePlainText (Del t ts) = concat (map parsePlainText ts)
   \<and> parsePlainText (Link h t ts) = concat (map parsePlainText ts)"
    by simp
  from per_kind flat a b c show ?thesis
    by blast
qed

theorem C8_table_cell_witness:
  "concat (map cellRuns []) = [] \<and> parseTableCellToRichText (TableCell []) = RawText []
   \<and> concat (map cellRuns [Text (ustr ''a < b'') (ustr ''a &lt; b'') None])
       = [TextRun (ustr ''a &lt; b'') None]
   \<and> parseTableCellToRichText (TableCell [Text (ustr ''a < b'') (ustr ''a &lt; b'') None])
       = RawText (ustr ''a &lt; b'')
   \<and> concat (map cellRuns
         [Strong (ustr ''a < _b_`c`'')
            [Text (ustr ''a < '') (ustr ''a &lt; '') None,
             Em (ustr ''b'') [Text (ustr ''b'') (ustr ''b'') None],
             Codespan (ustr ''`c`'') (ustr ''c'')]]) \<noteq> []
   \<and> (\<forall>y. concat (map cellRuns
         [Strong (ustr ''a < _b_`c`'')
            [Text (ustr ''a < '') (ustr ''a &lt; '') None,
             Em (ustr ''b'') [Text (ustr ''b'') (ustr ''b'') None],
             Codespan (ustr ''`c`'') (ustr ''c'')]]) \<noteq> [TextRun y None])
   \<and> parseTableCellToRichText (TableCell
         [Strong (ustr ''a < _b_`c`'')
            [Text (ustr ''a < '') (ustr ''a &lt; '') None,
             Em (ustr ''b'') [Text (ustr ''b'') (ustr ''b'') None],
             Codespan (ustr ''`c`'') (ustr ''c'')]])
       = RichText [TextRun (ustr ''a < b`c`'')
           (Some \<lparr>bold = True, italic = False, strike = False, code = False\<rparr>)]"
  using C8_table_cell [where csa = "[]"
      and csb = "[Text (ustr ''a < b'') (ustr ''a &lt; b'') None]"
      and x = "ustr ''a &lt; b''"
      and csc = "[Strong (ustr ''a < _b_`c`'')
            [Text (ustr ''a < '') (ustr ''a &lt; '') None,
             Em (ustr ''b'') [Text (ustr ''b'') (ustr ''b'') None],
             Codespan (ustr ''`c`'') (ustr ''c'')]]"]
  by (simp add: flatten_def plainStyle_def ustr_def)

section \<open>Properties of block quotes\<close>

lemma replaceNewlines_id: "newline \<notin> set a \<Longrightarrow> replaceNewlines a = a"
  unfolding replaceNewlines_def by (induction a) auto

lemma parseBlockquote_skip:
  "\<not> isParagraph c \<Longrightarrow> parseBlockquote (xs @ c # ys) = parseBlockquote (xs @ ys)"
  by (simp add: parseBlockquote_def)

text \<open>
  C7. A block quote converts its paragraph children only; a child of another kind adds
  no block. In the blocks of each paragraph, a Section whose text has a newline gets
  \<open>> \<close> in front and \<open>> \<close> after each newline; a Section without a newline and every
  other block are returned as they are.
\<close>

theorem C7_blockquote:
 "parseToken xml opts (Blockquote t ts)
    = Inr (concat (map (\<lambda>p. map quoteBlock (parseParagraph (paragraphTokens p)))
                       (filter isParagraph ts)))
 \<and> (\<not> isParagraph c \<longrightarrow> parseBlockquote (xs @ c # ys) = parseBlockquote (xs @ ys))
 \<and> parseBlockquote (Paragraph t' ps # rest) = map quoteBlock (parseParagraph ps) @ parseBlockquote rest
 \<and> parseBlockquote [] = []
 \<and> (newline \<in> set s \<longrightarrow> quoteBlock (Section s) = Section (ustr ''> '' @ replaceNewlines s))
 \<and> replaceNewlines (a @ newline # b) = replaceNewlines a @ newline # ustr ''> '' @ replaceNewlines b
 \<and> (newline \<notin> set a' \<longrightarrow> replaceNewlines a' = a')
 \<and> (newline \<notin> set s' \<longrightarrow> quoteBlock (Section s') = Section s')
 \<and> (\<not> isSectionBlock b' \<longrightarrow> quoteBlock b' = b')"
proof -
  have r: "replaceNewlines (a @ newline # b) = replaceNewlines a @ newline # ustr ''> '' @ replaceNewlines b"
    by (simp add: replaceNewlines_def)
  have q: "\<not> isSectionBlock b' \<longrightarrow> quoteBlock b' = b'"
    by (cases b') (simp_all add: isSectionBlock_def)
  have p: "parseBlockquote (Paragraph t' ps # rest) = map quoteBlock (parseParagraph ps) @ parseBlockquote rest"
    by (simp add: parseBlockquote_def)
  have e: "parseBlockquote [] = []"
    by (simp add: parseBlockquote_def)
  have d: "parseToken xml opts (Blockquote t ts)
    = Inr (concat (map (\<lambda>p. map quoteBlock (parseParagraph (paragraphTokens p)))
                       (filter isParagraph ts)))"
    by (simp add: parseBlockquote_def)
  from r q p e d show ?thesis
    using parseBlockquote_skip [of c xs ys] replaceNewlines_id [of a'] by simp
qed

theorem C7_blockquote_witness:
  "\<not> isParagraph (Heading (ustr ''h'') [Text (ustr ''h'') (ustr ''h'') None])
   \<and> parseBlockquote ([] @ Heading (ustr ''h'') [Text (ustr ''h'') (ustr ''h'') None]
        # [Paragraph (ustr ''a'' @ [newline] @ ustr ''b'')
             [Text (ustr ''a'' @ [newline] @ ustr ''b'') (ustr ''a'' @ [newline] @ ustr ''b'') None]])
      = [Section (ustr ''> a'' @ [newline] @ ustr ''> b'')]
   \<and> newline \<in> set (ustr ''a'' @ [newline] @ ustr ''b'')
   \<and> quoteBlock (Section (ustr ''a'' @ [newline] @ ustr ''b''))
      = Section (ustr ''> a'' @ [newline] @ ustr ''> b'')
   \<and> newline \<notin> set (ustr ''ab'')
   \<and> replaceNewlines (ustr ''ab'') = ustr ''ab''
   \<and> quoteBlock (Section (ustr ''ab'')) = Section (ustr ''ab'')
   \<and> \<not> isSectionBlock Divider
   \<and> quoteBlock Divider = Divider"
  using C7_blockquote [where c = "Heading (ustr ''h'') [Text (ustr ''h'') (ustr ''h'') None]"
      and xs = "[]"
      and ys = "[Paragraph (ustr ''a'' @ [newline] @ ustr ''b'')
             [Text (ustr ''a'' @ [newline] @ ustr ''b'') (ustr ''a'' @ [newline] @ ustr ''b'') None]]"
      and s = "ustr ''a'' @ [newline] @ ustr ''b''"
      and a' = "ustr ''ab''" and s' = "ustr ''ab''" and b' = Divider]
  by (simp add: ustr_def newline_def isSectionBlock_def replaceNewlines_def parseBlockquote_def
      parseParagraph_def addMrkdwn_def section_block_def MAX_TEXT_LENGTH_def)

section \<open>Unsupported tokens\<close>

lemma parseToken_unsupported: "\<not> supported t \<Longrightarrow> parseToken xml opts t = Inr []"
  by (cases t) simp_all

text \<open>
  C9. A top-level token of a kind other than heading, paragraph, code, block quote, list,
  table, thematic break and raw HTML gives the empty block list, with no exception; a
  token sequence of such tokens only gives the empty block sequence.
\<close>

theorem C9_unsupported_token: "(\<not> supported t \<longrightarrow> parseToken xml opts t = Inr [])
  \<and> ((\<forall>t \<in> set ts. \<not> supported t) \<longrightarrow> parseBlocks xml opts ts = Inr [])"
proof (intro conjI impI)
  assume "\<not> supported t" then show "parseToken xml opts t = Inr []" by (rule parseToken_unsupported)
next
  assume "\<forall>t \<in> set ts. \<not> supported t"
  then show "parseBlocks xml opts ts = Inr []"
    by (induction ts) (simp_all add: parseToken_unsupported)
qed

theorem C9_unsupported_token_witness: "\<not> supported (Escape (ustr ''*'')) \<and> parseToken (\<lambda>r. Inl ParserError) \<lparr>lists = None\<rparr> (Escape (ustr ''*'')) = Inr []
  \<and> list_all (\<lambda>t. \<not> supported t) [Space, Def, Text (ustr ''x'') (ustr ''x'') None, Generic None]
  \<and> parseBlocks (\<lambda>r. Inl ParserError) \<lparr>lists = None\<rparr> [Space, Def, Text (ustr ''x'') (ustr ''x'') None, Generic None] = Inr []"
  using C9_unsupported_token [of "Escape (ustr ''*'')" "\<lambda>r. Inl ParserError" "\<lparr>lists = None\<rparr>" "[Space, Def, Text (ustr ''x'') (ustr ''x'') None, Generic None]"]
  by simp

end
